theory Spec2Isabelle
  imports Main
begin

section \<open>Values of a parsed manifest and Python errors\<close>

text \<open>
  \<^verbatim>\<open>tomllib.load\<close> returns a \<^verbatim>\<open>dict\<close> whose values are strings, integers, floats,
  booleans, dates, lists and nested dicts. A dict keeps insertion order, so it is an
  association list here. Floats and dates are kept as their literal text. The tuple
  \<^verbatim>\<open>(module, attr)\<close> that \<^verbatim>\<open>add_langserve_path\<close> stores is the two-element array that
  \<^verbatim>\<open>tomli_w\<close> writes for it.
\<close>

datatype toml =
    TStr string
  | TInt int
  | TFloat string
  | TBool bool
  | TDatetime string
  | TArray "toml list"
  | TTable "(string \<times> toml) list"

type_synonym table = "(string \<times> toml) list"

type_synonym bytes = string

datatype error =
    KeyError string
  | ValueError string
  | TypeError string
  | AttributeError string
  | FileNotFoundError string
  | URLError string
  | TOMLDecodeError
  | NotFoundError string

subsection \<open>Python dict and attribute operations\<close>

text \<open>\<^verbatim>\<open>d[k]\<close> on a dict: the value, or \<^verbatim>\<open>KeyError\<close>.\<close>

definition dict_getitem :: "table \<Rightarrow> string \<Rightarrow> error + toml" where
  "dict_getitem d k = (case map_of d k of None \<Rightarrow> Inl (KeyError k) | Some v \<Rightarrow> Inr v)"

text \<open>\<^verbatim>\<open>d[k] = v\<close> on a dict: an existing key keeps its place, a new key goes last.\<close>

fun dict_setitem :: "table \<Rightarrow> string \<Rightarrow> toml \<Rightarrow> table" where
  "dict_setitem [] k v = [(k, v)]"
| "dict_setitem ((k', v') # d) k v =
     (if k' = k then (k, v) # d else (k', v') # dict_setitem d k v)"

text \<open>\<^verbatim>\<open>d.pop(k)\<close> on a dict, with no default: \<^verbatim>\<open>KeyError\<close> when the key is absent.\<close>

definition dict_pop :: "table \<Rightarrow> string \<Rightarrow> error + table" where
  "dict_pop d k =
     (case map_of d k of
        None \<Rightarrow> Inl (KeyError k)
      | Some v \<Rightarrow> Inr (filter (\<lambda>kv. fst kv \<noteq> k) d))"

text \<open>
  \<^verbatim>\<open>x.get(k, default)\<close>: only a dict has the method; on every other value the attribute
  lookup raises \<^verbatim>\<open>AttributeError\<close>.
\<close>

fun py_get :: "toml \<Rightarrow> string \<Rightarrow> toml \<Rightarrow> error + toml" where
  "py_get (TTable d) k dflt = Inr (case map_of d k of None \<Rightarrow> dflt | Some v \<Rightarrow> v)"
| "py_get _ k dflt = Inl (AttributeError ''get'')"

text \<open>\<^verbatim>\<open>x.get(k)\<close>: as above, with \<^verbatim>\<open>None\<close> for an absent key.\<close>

fun py_get_none :: "toml \<Rightarrow> string \<Rightarrow> error + toml option" where
  "py_get_none (TTable d) k = Inr (map_of d k)"
| "py_get_none _ k = Inl (AttributeError ''get'')"

text \<open>\<^verbatim>\<open>x[k] = v\<close> with a string key: a dict stores it, nothing else accepts it.\<close>

fun py_setitem :: "toml \<Rightarrow> string \<Rightarrow> toml \<Rightarrow> error + toml" where
  "py_setitem (TTable d) k v = Inr (TTable (dict_setitem d k v))"
| "py_setitem (TArray xs) k v = Inl (TypeError ''list indices must be integers or slices, not str'')"
| "py_setitem _ k v = Inl (TypeError ''object does not support item assignment'')"

text \<open>
  \<^verbatim>\<open>x.pop(k)\<close> with a string key: a dict removes the key, a list refuses a string
  index, no other value has the method.
\<close>

fun py_pop :: "toml \<Rightarrow> string \<Rightarrow> error + toml" where
  "py_pop (TTable d) k = (case dict_pop d k of Inl e \<Rightarrow> Inl e | Inr d' \<Rightarrow> Inr (TTable d'))"
| "py_pop (TArray xs) k = Inl (TypeError ''str object cannot be interpreted as an integer'')"
| "py_pop _ k = Inl (AttributeError ''pop'')"

text \<open>
  \<^verbatim>\<open>k in x\<close> with a string \<^verbatim>\<open>k\<close>: key membership on a dict, the substring test on a
  string, element membership on a list, \<^verbatim>\<open>TypeError\<close> on a value that is not iterable.
\<close>

fun is_substring :: "string \<Rightarrow> string \<Rightarrow> bool" where
  "is_substring k [] = (k = [])"
| "is_substring k (c # cs) = (take (length k) (c # cs) = k \<or> is_substring k cs)"

fun py_in :: "string \<Rightarrow> toml \<Rightarrow> error + bool" where
  "py_in k (TTable d) = Inr (map_of d k \<noteq> None)"
| "py_in k (TStr s) = Inr (is_substring k s)"
| "py_in k (TArray xs) = Inr (TStr k \<in> set xs)"
| "py_in k _ = Inl (TypeError ''argument is not iterable'')"

text \<open>\<^verbatim>\<open>str.startswith\<close>.\<close>

definition startswith :: "string \<Rightarrow> string \<Rightarrow> bool" where
  "startswith s pre = (take (length pre) s = pre)"

section \<open>The manifest store: class \<^verbatim>\<open>PyProject\<close>\<close>

text \<open>
  \<^verbatim>\<open>self.data\<close> is the parsed document, \<^verbatim>\<open>self.path\<close> the file it was loaded from, or
  \<^verbatim>\<open>None\<close> for a document fetched from a URL.
\<close>

record pyproject =
  data :: table
  path :: "string option"

text \<open>
  \<^verbatim>\<open>_get_langserve_path_dict\<close>:
  \<^verbatim>\<open>self.data["tool"].get("langserve", {}).get("paths", {})\<close>.
\<close>

definition get_langserve_path_dict :: "pyproject \<Rightarrow> error + toml" where
  "get_langserve_path_dict pp =
     (case dict_getitem (data pp) ''tool'' of
        Inl e \<Rightarrow> Inl e
      | Inr tool \<Rightarrow>
          (case py_get tool ''langserve'' (TTable []) of
             Inl e \<Rightarrow> Inl e
           | Inr langserve \<Rightarrow> py_get langserve ''paths'' (TTable [])))"

text \<open>
  \<^verbatim>\<open>_set_langserve_path_dict\<close>: the three statements in order. Each raises before it
  changes anything, so a failed call returns the document as it was. The dicts are
  updated in place in the source; an existing key keeps its position, which
  \<^const>\<open>dict_setitem\<close> reproduces.
\<close>

definition set_langserve_path_dict :: "pyproject \<Rightarrow> toml \<Rightarrow> (error + unit) \<times> pyproject" where
  "set_langserve_path_dict pp path_dict =
     (case dict_getitem (data pp) ''tool'' of
        Inl e \<Rightarrow> (Inl e, pp)
      | Inr tool \<Rightarrow>
          (case py_get tool ''langserve'' (TTable []) of
             Inl e \<Rightarrow> (Inl e, pp)
           | Inr langserve \<Rightarrow>
               (case py_setitem langserve ''paths'' path_dict of
                  Inl e \<Rightarrow> (Inl e, pp)
                | Inr langserve' \<Rightarrow>
                    (case py_setitem tool ''langserve'' langserve' of
                       Inl e \<Rightarrow> (Inl e, pp)
                     | Inr tool' \<Rightarrow>
                         (Inr (), pp\<lparr>data := dict_setitem (data pp) ''tool'' tool'\<rparr>)))))"

text \<open>\<^verbatim>\<open>is_langserve\<close>: \<^verbatim>\<open>"langserve" in self.data["tool"]\<close>.\<close>

definition is_langserve :: "pyproject \<Rightarrow> error + bool" where
  "is_langserve pp =
     (case dict_getitem (data pp) ''tool'' of
        Inl e \<Rightarrow> Inl e
      | Inr tool \<Rightarrow> py_in ''langserve'' tool)"

text \<open>
  \<^verbatim>\<open>add_langserve_path\<close>: read the path dict, store the entry, write the dict back.
  The store \<^verbatim>\<open>paths[path] = module\<close> either raises on a value that is not a dict and
  changes nothing, or succeeds on a dict, and then the write-back cannot fail; so the
  document returned with an error is always the unchanged one.
\<close>

definition add_langserve_path :: "pyproject \<Rightarrow> string \<Rightarrow> toml \<times> toml \<Rightarrow> (error + unit) \<times> pyproject" where
  "add_langserve_path pp p module =
     (case get_langserve_path_dict pp of
        Inl e \<Rightarrow> (Inl e, pp)
      | Inr paths \<Rightarrow>
          (case py_setitem paths p (TArray [fst module, snd module]) of
             Inl e \<Rightarrow> (Inl e, pp)
           | Inr paths' \<Rightarrow> set_langserve_path_dict pp paths'))"

text \<open>\<^verbatim>\<open>remove_langserve_path\<close>: read the path dict, pop the key, write the dict back.\<close>

definition remove_langserve_path :: "pyproject \<Rightarrow> string \<Rightarrow> (error + unit) \<times> pyproject" where
  "remove_langserve_path pp p =
     (case get_langserve_path_dict pp of
        Inl e \<Rightarrow> (Inl e, pp)
      | Inr paths \<Rightarrow>
          (case py_pop paths p of
             Inl e \<Rightarrow> (Inl e, pp)
           | Inr paths' \<Rightarrow> set_langserve_path_dict pp paths'))"

text \<open>\<^verbatim>\<open>get_langserve_paths\<close> returns the path dict.\<close>

definition get_langserve_paths :: "pyproject \<Rightarrow> error + toml" where
  "get_langserve_paths pp = get_langserve_path_dict pp"

section \<open>The world outside the process\<close>

text \<open>
  What the process prints: a line of text, the line \<^verbatim>\<open>f"{k} -> {v}"\<close> with the value
  still to be formatted by \<^verbatim>\<open>str\<close>, or the \<^verbatim>\<open>repr\<close> of a dict (\<^verbatim>\<open>print(self.data)\<close>).
\<close>

datatype printed =
    Line string
  | Arrow string toml
  | Repr table

text \<open>
  What \<^verbatim>\<open>urlopen\<close> does with a URL: it returns a response body, it raises \<^verbatim>\<open>HTTPError\<close>
  for a status that is not a success, or it raises something else (\<^verbatim>\<open>ValueError\<close> for a
  string that is no URL, as the manifest location of a local package is).
\<close>

datatype response =
    Body bytes
  | HTTPStatus nat
  | Raises error

text \<open>An entry of a remote directory: a file whose fetch succeeds or fails, or a subdirectory.\<close>

datatype rnode =
    RFile "error + bytes"
  | RDir "(string \<times> rnode) list"

text \<open>
  The state a command runs against: the local files and directories, the process
  environment, the web, the hub repository (the listing of each package directory),
  the shell commands run so far and the text printed so far. A URL the web does not
  know is one \<^verbatim>\<open>urlopen\<close> cannot reach (\<^verbatim>\<open>URLError\<close>). A file is a path with its bytes;
  reading a path that holds none fails, and every write is accepted.
\<close>

record world =
  files :: "string \<rightharpoonup> bytes"
  dirs :: "string set"
  environ :: "string \<rightharpoonup> string"
  web :: "string \<rightharpoonup> response"
  hub :: "string \<rightharpoonup> (string \<times> rnode) list"
  calls :: "string list"
  stdout :: "printed list"

text \<open>
  The third-party parts, taken as parameters: \<^verbatim>\<open>tomllib.load\<close>, \<^verbatim>\<open>tomli_w.dump\<close> and
  what a shell command does to the local files together with its exit status.
\<close>

record platform =
  load_toml :: "bytes \<Rightarrow> error + table"
  dump_toml :: "table \<Rightarrow> bytes"
  shell :: "string \<Rightarrow> (string \<rightharpoonup> bytes) \<Rightarrow> int \<times> (string \<rightharpoonup> bytes)"

text \<open>\<^verbatim>\<open>typer.echo\<close> and \<^verbatim>\<open>print\<close>.\<close>

definition echo :: "printed \<Rightarrow> world \<Rightarrow> world" where
  "echo out w = w\<lparr>stdout := stdout w @ [out]\<rparr>"

text \<open>
  \<^verbatim>\<open>subprocess.run(cmd, shell=True)\<close>: without \<^verbatim>\<open>check=True\<close> it returns the completed
  process, whatever the exit status; the value is the return code.
\<close>

definition subprocess_run :: "platform \<Rightarrow> string \<Rightarrow> world \<Rightarrow> int \<times> world" where
  "subprocess_run X cmd w =
     (case shell X cmd (files w) of
        (rc, fs) \<Rightarrow> (rc, w\<lparr>files := fs, calls := calls w @ [cmd]\<rparr>))"

subsection \<open>Loading, fetching and saving a document\<close>

text \<open>\<^verbatim>\<open>PyProject.load\<close>: open the file, parse it, keep the path.\<close>

definition load :: "platform \<Rightarrow> string \<Rightarrow> world \<Rightarrow> error + pyproject" where
  "load X p w =
     (case files w p of
        None \<Rightarrow> Inl (FileNotFoundError p)
      | Some b \<Rightarrow>
          (case load_toml X b of
             Inl e \<Rightarrow> Inl e
           | Inr d \<Rightarrow> Inr \<lparr>data = d, path = Some p\<rparr>))"

text \<open>
  \<^verbatim>\<open>PyProject.from_url\<close>: only \<^verbatim>\<open>HTTPError\<close> is caught and turned into the
  \<^verbatim>\<open>ValueError\<close> with the token hint; every other failure propagates as it is.
\<close>

definition from_url :: "platform \<Rightarrow> string \<Rightarrow> world \<Rightarrow> error + pyproject" where
  "from_url X url w =
     (case web w url of
        None \<Rightarrow> Inl (URLError url)
      | Some (HTTPStatus n) \<Rightarrow> Inl (ValueError ''Consider updating your GITHUB_TOKEN'')
      | Some (Raises e) \<Rightarrow> Inl e
      | Some (Body b) \<Rightarrow>
          (case load_toml X b of
             Inl e \<Rightarrow> Inl e
           | Inr d \<Rightarrow> Inr \<lparr>data = d, path = None\<rparr>))"

text \<open>\<^verbatim>\<open>PyProject.save\<close>.\<close>

definition save :: "platform \<Rightarrow> pyproject \<Rightarrow> world \<Rightarrow> (error + unit) \<times> world" where
  "save X pp w =
     (case path pp of
        None \<Rightarrow> (Inl (ValueError ''Cannot save a PyProject that was not loaded from a file''), w)
      | Some p \<Rightarrow> (Inr (), w\<lparr>files := (files w)(p \<mapsto> dump_toml X (data pp))\<rparr>))"

text \<open>
  \<^verbatim>\<open>get_langserve_export\<close>. When \<^verbatim>\<open>export_module\<close> is absent the document is printed
  before the error is raised. A parsed document holds no \<^verbatim>\<open>None\<close>, so \<^verbatim>\<open>is None\<close>
  means that the key is absent.
\<close>

definition get_langserve_export :: "pyproject \<Rightarrow> world \<Rightarrow> (error + toml \<times> toml) \<times> world" where
  "get_langserve_export pp w =
     (case dict_getitem (data pp) ''tool'' of
        Inl e \<Rightarrow> (Inl e, w)
      | Inr tool \<Rightarrow>
     (case py_get tool ''langserve'' (TTable []) of
        Inl e \<Rightarrow> (Inl e, w)
      | Inr langserve \<Rightarrow>
     (case py_get_none langserve ''export_module'' of
        Inl e \<Rightarrow> (Inl e, w)
      | Inr None \<Rightarrow>
          (Inl (ValueError ''No module name was exported at `tool.langserve.export_module`''),
           echo (Repr (data pp)) w)
      | Inr (Some module) \<Rightarrow>
     (case dict_getitem (data pp) ''tool'' of
        Inl e \<Rightarrow> (Inl e, w)
      | Inr tool2 \<Rightarrow>
     (case py_get tool2 ''langserve'' (TTable []) of
        Inl e \<Rightarrow> (Inl e, w)
      | Inr langserve2 \<Rightarrow>
     (case py_get_none langserve2 ''export_attr'' of
        Inl e \<Rightarrow> (Inl e, w)
      | Inr None \<Rightarrow>
          (Inl (ValueError ''No attr name was exported at `tool.langserve.export_attr`''), w)
      | Inr (Some attr) \<Rightarrow> (Inr (module, attr), w)))))))"

section \<open>The commands\<close>

text \<open>\<^verbatim>\<open>_load_pyproject\<close>: the manifest of the current project.\<close>

definition load_pyproject :: "platform \<Rightarrow> world \<Rightarrow> error + pyproject" where
  "load_pyproject X w = load X ''pyproject.toml'' w"

text \<open>
  \<^verbatim>\<open>curr_data["tool"]\<close> where \<^verbatim>\<open>curr_data\<close> is a \<^verbatim>\<open>PyProject\<close>: the class defines no
  \<^verbatim>\<open>__getitem__\<close>, so subscripting the object raises \<^verbatim>\<open>TypeError\<close>.
\<close>

definition pyproject_getitem :: "pyproject \<Rightarrow> string \<Rightarrow> error + toml" where
  "pyproject_getitem pp k = Inl (TypeError ''PyProject object is not subscriptable'')"

text \<open>\<^verbatim>\<open>x.items()\<close>: the pairs of a dict in insertion order; no other value has the method.\<close>

fun py_items :: "toml \<Rightarrow> error + (string \<times> toml) list" where
  "py_items (TTable d) = Inr d"
| "py_items _ = Inl (AttributeError ''items'')"

text \<open>The command \<^verbatim>\<open>list\<close>.\<close>

definition list_cmd :: "platform \<Rightarrow> world \<Rightarrow> (error + unit) \<times> world" where
  "list_cmd X w =
     (case load_pyproject X w of
        Inl e \<Rightarrow> (Inl e, w)
      | Inr curr_data \<Rightarrow>
     (case pyproject_getitem curr_data ''tool'' of
        Inl e \<Rightarrow> (Inl e, w)
      | Inr tool \<Rightarrow>
     (case py_get tool ''langserve'' (TTable []) of
        Inl e \<Rightarrow> (Inl e, w)
      | Inr langserve \<Rightarrow>
     (case py_items langserve of
        Inl e \<Rightarrow> (Inl e, w)
      | Inr kvs \<Rightarrow> (Inr (), foldl (\<lambda>w' kv. echo (Arrow (fst kv) (snd kv)) w') w kvs)))))"

text \<open>The command \<^verbatim>\<open>remove\<close>.\<close>

definition remove :: "platform \<Rightarrow> string \<Rightarrow> world \<Rightarrow> (error + unit) \<times> world" where
  "remove X p w =
     (case load_pyproject X w of
        Inl e \<Rightarrow> (Inl e, w)
      | Inr curr_data \<Rightarrow>
          (case remove_langserve_path curr_data p of
             (Inl e, curr_data') \<Rightarrow> (Inl e, w)
           | (Inr u, curr_data') \<Rightarrow> save X curr_data' w))"

text \<open>\<^verbatim>\<open>_package_to_poetry\<close>.\<close>

definition package_to_poetry :: "string \<Rightarrow> string" where
  "package_to_poetry package =
     (if startswith package ''.'' \<or> startswith package ''/'' then package
      else ''git+https://github.com/langchain-ai/langserve-hub.git#subdirectory='' @ package)"

text \<open>
  \<^verbatim>\<open>_package_to_pyproject\<close>. \<^verbatim>\<open>not os.environ.get("GITHUB_TOKEN")\<close> holds when the
  variable is unset and when it is the empty string.
\<close>

definition package_to_pyproject :: "(string \<rightharpoonup> string) \<Rightarrow> string \<Rightarrow> string" where
  "package_to_pyproject env package =
     (if startswith package ''.'' \<or> startswith package ''/'' then package @ ''/pyproject.toml''
      else
        (let tokenparam =
           (case env ''GITHUB_TOKEN'' of
              None \<Rightarrow> []
            | Some t \<Rightarrow> if t = [] then [] else ''?token='' @ t)
         in ''https://raw.githubusercontent.com/langchain-ai/langserve-hub/main/'' @ package
              @ ''/pyproject.toml'' @ tokenparam))"

text \<open>
  The command \<^verbatim>\<open>add\<close>. The return code of the installer is bound and never read.
  \<^verbatim>\<open>path or f"/{package}"\<close> takes the default for \<^verbatim>\<open>None\<close> and for the empty string.
  In the call \<^verbatim>\<open>pyproject.add_langserve_path(api_path, package_pyproject.get_langserve_export())\<close>
  the argument is evaluated first.
\<close>

definition add :: "platform \<Rightarrow> string \<Rightarrow> string option \<Rightarrow> world \<Rightarrow> (error + unit) \<times> world" where
  "add X package path_arg w =
     (let package_pyproject_url = package_to_pyproject (environ w) package in
      case from_url X package_pyproject_url w of
        Inl e \<Rightarrow> (Inl e, w)
      | Inr package_pyproject \<Rightarrow>
     (case is_langserve package_pyproject of
        Inl e \<Rightarrow> (Inl e, w)
      | Inr False \<Rightarrow>
          (Inl (ValueError (''Package '' @ package
                  @ '' does not have a `tool.langserve` section in its pyproject.toml'')), w)
      | Inr True \<Rightarrow>
     (let package_path = package_to_poetry package;
          w1 = echo (Line (''Adding '' @ package)) w
      in case subprocess_run X (''poetry add '' @ package_path) w1 of
        (rc, w2) \<Rightarrow>
     (let api_path =
            (case path_arg of
               None \<Rightarrow> ''/'' @ package
             | Some p \<Rightarrow> if p = [] then ''/'' @ package else p)
      in case load_pyproject X w2 of
        Inl e \<Rightarrow> (Inl e, w2)
      | Inr pyproject \<Rightarrow>
     (case get_langserve_export package_pyproject w2 of
        (Inl e, w3) \<Rightarrow> (Inl e, w3)
      | (Inr export, w3) \<Rightarrow>
     (case add_langserve_path pyproject api_path export of
        (Inl e, pyproject') \<Rightarrow> (Inl e, w3)
      | (Inr u, pyproject') \<Rightarrow> save X pyproject' w3))))))"

subsection \<open>Downloading a package\<close>

text \<open>
  Modelled from the spec: \<^verbatim>\<open>download_github_path\<close> lives in the module
  \<^verbatim>\<open>langservehub/github.py\<close>, which is not among the sources. The spec (4.3) gives the
  algorithm: list the entries of the remote directory; write a file to
  \<^verbatim>\<open>localPath/entryName\<close>, creating parent directories; for a subdirectory create
  \<^verbatim>\<open>localPath/entryName\<close> and recurse; a remote path that does not exist is a
  \<^verbatim>\<open>NotFoundError\<close>; the first failed fetch ends the operation and is propagated, and
  nothing written before it is removed. The entries are taken in listing order.
\<close>

fun mirror_node :: "string \<Rightarrow> string \<Rightarrow> rnode \<Rightarrow> world \<Rightarrow> (error + unit) \<times> world"
and mirror_entries :: "string \<Rightarrow> (string \<times> rnode) list \<Rightarrow> world \<Rightarrow> (error + unit) \<times> world" where
  "mirror_node localpath name (RFile (Inl e)) w = (Inl e, w)"
| "mirror_node localpath name (RFile (Inr content)) w =
     (Inr (), w\<lparr>files := (files w)(localpath @ ''/'' @ name \<mapsto> content),
                 dirs := insert localpath (dirs w)\<rparr>)"
| "mirror_node localpath name (RDir entries) w =
     mirror_entries (localpath @ ''/'' @ name) entries
       (w\<lparr>dirs := insert (localpath @ ''/'' @ name) (dirs w)\<rparr>)"
| "mirror_entries localpath [] w = (Inr (), w)"
| "mirror_entries localpath (entry # entries) w =
     (case mirror_node localpath (fst entry) (snd entry) w of
        (Inl e, w') \<Rightarrow> (Inl e, w')
      | (Inr u, w') \<Rightarrow> mirror_entries localpath entries w')"

definition download_github_path :: "string \<Rightarrow> string \<Rightarrow> world \<Rightarrow> (error + unit) \<times> world" where
  "download_github_path package localpath w =
     (case hub w package of
        None \<Rightarrow> (Inl (NotFoundError package), w)
      | Some entries \<Rightarrow> mirror_entries localpath entries w)"

text \<open>The command \<^verbatim>\<open>download\<close>: the success line is printed only after the download returned.\<close>

definition download :: "string \<Rightarrow> string \<Rightarrow> world \<Rightarrow> (error + unit) \<times> world" where
  "download package localpath w =
     (case download_github_path package localpath w of
        (Inl e, w') \<Rightarrow> (Inl e, w')
      | (Inr u, w') \<Rightarrow>
          (Inr (), echo (Line (''Successfully downloaded '' @ package @ '' to '' @ localpath)) w'))"

section \<open>Sample documents, platform and world\<close>

text \<open>
  Concrete inputs on which the theorems below are evaluated. The sample platform writes a
  document as a line of text and parses back the four sample documents; its installer
  leaves the files alone and exits with the given status.
\<close>

fun sample_dump :: "toml \<Rightarrow> string" where
  "sample_dump (TStr s) = ''<'' @ s @ ''>''"
| "sample_dump (TInt i) = (if i < 0 then ''-'' else ''+'') @ replicate (nat \<bar>i\<bar>) CHR ''I''"
| "sample_dump (TFloat s) = s"
| "sample_dump (TBool b) = (if b then ''true'' else ''false'')"
| "sample_dump (TDatetime s) = s"
| "sample_dump (TArray xs) = ''['' @ concat (map (\<lambda>x. sample_dump x @ '','') xs) @ '']''"
| "sample_dump (TTable kvs) =
     ''{'' @ concat (map (\<lambda>kv. fst kv @ ''='' @ sample_dump (snd kv) @ '','') kvs) @ ''}''"

definition pirate_manifest :: table where
  "pirate_manifest =
     [(''tool'', TTable
        [(''poetry'', TTable [(''name'', TStr ''pirate'')]),
         (''langserve'', TTable
            [(''export_module'', TStr ''pirate''), (''export_attr'', TStr ''chain'')])])]"

definition plain_manifest :: table where
  "plain_manifest = [(''tool'', TTable [(''poetry'', TTable [(''name'', TStr ''plain'')])])]"

definition bare_manifest :: table where
  "bare_manifest = [(''project'', TTable [(''name'', TStr ''bare'')])]"

definition project_manifest :: table where
  "project_manifest =
     [(''tool'', TTable
        [(''poetry'', TTable [(''name'', TStr ''app'')]),
         (''langserve'', TTable
            [(''paths'', TTable [(''/joke'', TArray [TStr ''joke'', TStr ''chain''])])])])]"

definition sample_load_toml :: "bytes \<Rightarrow> error + table" where
  "sample_load_toml b =
     (case find (\<lambda>d. sample_dump (TTable d) = b)
             [pirate_manifest, plain_manifest, bare_manifest, project_manifest] of
        None \<Rightarrow> Inl TOMLDecodeError
      | Some d \<Rightarrow> Inr d)"

definition sample_platform :: "int \<Rightarrow> platform" where
  "sample_platform rc =
     \<lparr>load_toml = sample_load_toml,
      dump_toml = (\<lambda>d. sample_dump (TTable d)),
      shell = (\<lambda>cmd fs. (rc, fs))\<rparr>"

definition hub_url :: "string \<Rightarrow> string" where
  "hub_url package =
     ''https://raw.githubusercontent.com/langchain-ai/langserve-hub/main/'' @ package
       @ ''/pyproject.toml''"

definition sample_world :: world where
  "sample_world =
     \<lparr>files = [''pyproject.toml'' \<mapsto> sample_dump (TTable project_manifest)],
      dirs = {},
      environ = Map.empty,
      web = [hub_url ''simple/pirate'' \<mapsto> Body (sample_dump (TTable pirate_manifest)),
             hub_url ''simple/plain'' \<mapsto> Body (sample_dump (TTable plain_manifest)),
             hub_url ''simple/bare'' \<mapsto> Body (sample_dump (TTable bare_manifest))],
      hub = [''simple/pirate'' \<mapsto>
               [(''a.txt'', RFile (Inr ''alpha'')),
                (''sub'', RDir [(''b.txt'', RFile (Inr ''beta''))])],
             ''simple/broken'' \<mapsto>
               [(''a.txt'', RFile (Inr ''alpha'')),
                (''sub'', RDir [(''b.txt'', RFile (Inl (NotFoundError ''sub/b.txt'')))])]],
      calls = [],
      stdout = []\<rparr>"

definition sample_project :: pyproject where
  "sample_project = \<lparr>data = project_manifest, path = Some ''pyproject.toml''\<rparr>"

definition pirate_package :: pyproject where
  "pirate_package = \<lparr>data = pirate_manifest, path = None\<rparr>"

definition bare_package :: pyproject where
  "bare_package = \<lparr>data = bare_manifest, path = None\<rparr>"

definition half_package :: pyproject where
  "half_package =
     \<lparr>data = [(''tool'', TTable [(''langserve'', TTable [(''export_module'', TStr ''pirate'')])])],
      path = None\<rparr>"

definition plain_package :: pyproject where
  "plain_package = \<lparr>data = plain_manifest, path = None\<rparr>"

section \<open>The mount table\<close>

subsection \<open>Facts about the dict operations\<close>

lemma map_of_dict_setitem: "map_of (dict_setitem d k v) = (map_of d)(k \<mapsto> v)"
  by (induction d) auto

lemma length_dict_setitem: "map_of d k \<noteq> None \<Longrightarrow> length (dict_setitem d k v) = length d"
  by (induction d) auto

lemma keys_dict_setitem: "map_of d k \<noteq> None \<Longrightarrow> map fst (dict_setitem d k v) = map fst d"
  by (induction d) auto

lemma py_get_InrD: "py_get x k dflt = Inr y \<Longrightarrow> \<exists>d. x = TTable d"
  by (cases x) auto

text \<open>When the path dict can be read, \<^verbatim>\<open>tool\<close> and the langserve section are dicts.\<close>

lemma get_langserve_path_dict_InrD:
  assumes "get_langserve_path_dict pp = Inr y"
  shows "\<exists>t ls. map_of (data pp) ''tool'' = Some (TTable t)
           \<and> py_get (TTable t) ''langserve'' (TTable []) = Inr (TTable ls)
           \<and> py_get (TTable ls) ''paths'' (TTable []) = Inr y"
proof -
  from assms obtain tl where tl: "map_of (data pp) ''tool'' = Some tl"
    unfolding get_langserve_path_dict_def dict_getitem_def
    by (auto split: option.splits)
  with assms obtain l where l: "py_get tl ''langserve'' (TTable []) = Inr l"
    and y: "py_get l ''paths'' (TTable []) = Inr y"
    unfolding get_langserve_path_dict_def dict_getitem_def
    by (auto split: sum.splits)
  from l obtain t where t: "tl = TTable t" by (blast dest: py_get_InrD)
  from y obtain ls where ls: "l = TTable ls" by (blast dest: py_get_InrD)
  show ?thesis using tl l y t ls by blast
qed

text \<open>Writing a path dict back succeeds whenever reading it did, and it is read back.\<close>

lemma set_then_get:
  assumes "get_langserve_path_dict pp = Inr y"
  shows "fst (set_langserve_path_dict pp (TTable ps')) = Inr ()
     \<and> get_langserve_path_dict (snd (set_langserve_path_dict pp (TTable ps'))) = Inr (TTable ps')
     \<and> path (snd (set_langserve_path_dict pp (TTable ps'))) = path pp"
proof -
  from get_langserve_path_dict_InrD [OF assms] obtain t ls where
    t: "map_of (data pp) ''tool'' = Some (TTable t)" and
    ls: "py_get (TTable t) ''langserve'' (TTable []) = Inr (TTable ls)"
    by blast
  have s: "set_langserve_path_dict pp (TTable ps') =
     (Inr (), pp\<lparr>data := dict_setitem (data pp) ''tool''
        (TTable (dict_setitem t ''langserve'' (TTable (dict_setitem ls ''paths'' (TTable ps')))))\<rparr>)"
    unfolding set_langserve_path_dict_def dict_getitem_def using t ls by simp
  show ?thesis
    unfolding s get_langserve_path_dict_def dict_getitem_def
    by (simp add: map_of_dict_setitem)
qed

lemma add_langserve_path_step:
  assumes "get_langserve_paths pp = Inr (TTable ps)"
  shows "add_langserve_path pp p e =
           (Inr (), snd (add_langserve_path pp p e))
       \<and> get_langserve_paths (snd (add_langserve_path pp p e)) =
           Inr (TTable (dict_setitem ps p (TArray [fst e, snd e])))"
proof -
  have g: "get_langserve_path_dict pp = Inr (TTable ps)"
    using assms by (simp add: get_langserve_paths_def)
  have a: "add_langserve_path pp p e =
      set_langserve_path_dict pp (TTable (dict_setitem ps p (TArray [fst e, snd e])))"
    unfolding add_langserve_path_def using g by simp
  from set_then_get [OF g, of "dict_setitem ps p (TArray [fst e, snd e])"]
  show ?thesis unfolding a get_langserve_paths_def
    by (simp add: prod_eq_iff)
qed

lemma tool_absent:
  assumes "map_of (data pp) ''tool'' = None"
  shows "get_langserve_path_dict pp = Inl (KeyError ''tool'')"
  using assms by (simp add: get_langserve_path_dict_def dict_getitem_def)

subsection \<open>The sample documents evaluated\<close>

lemma sample_project_paths:
  "get_langserve_paths sample_project =
     Inr (TTable [(''/joke'', TArray [TStr ''joke'', TStr ''chain''])])"
  by (simp add: get_langserve_paths_def get_langserve_path_dict_def dict_getitem_def
      sample_project_def project_manifest_def)

lemma bare_package_no_tool: "map_of (data bare_package) ''tool'' = None"
  by (simp add: bare_package_def bare_manifest_def)

lemma fetch_bare:
  "from_url (sample_platform 0) (package_to_pyproject (environ sample_world) ''simple/bare'') sample_world
     = Inr bare_package"
  by (simp add: from_url_def package_to_pyproject_def startswith_def sample_world_def hub_url_def
      sample_platform_def sample_load_toml_def bare_package_def
      pirate_manifest_def plain_manifest_def bare_manifest_def project_manifest_def)

subsection \<open>Adding a mount\<close>

text \<open>
  Claim C5, as amended. On a document whose mount table can be read (\<^verbatim>\<open>listMounts()\<close>
  returns the dict \<open>ps\<close>: the document has a \<^verbatim>\<open>tool\<close> table, and its langserve section
  and path dict, where present, are dicts), \<^verbatim>\<open>addMount(p, e1)\<close> succeeds and
  \<^verbatim>\<open>listMounts()\<close> then maps \<open>p\<close> to \<open>e1\<close>; when \<open>p\<close> was mapped before, the table
  keeps its size. A second \<^verbatim>\<open>addMount(p, e2)\<close> succeeds too, \<^verbatim>\<open>listMounts()\<close> then
  maps \<open>p\<close> to \<open>e2\<close>, and the table has the same size and the same keys in the same
  order as after the first call: the last write wins.
\<close>

theorem add_langserve_path_last_write_wins:
  assumes "get_langserve_paths pp = Inr (TTable ps)"
  shows "\<exists>pp1 ps1 pp2 ps2.
           add_langserve_path pp p e1 = (Inr (), pp1)
         \<and> get_langserve_paths pp1 = Inr (TTable ps1)
         \<and> map_of ps1 p = Some (TArray [fst e1, snd e1])
         \<and> (p \<in> fst ` set ps \<longrightarrow> length ps1 = length ps)
         \<and> add_langserve_path pp1 p e2 = (Inr (), pp2)
         \<and> get_langserve_paths pp2 = Inr (TTable ps2)
         \<and> map_of ps2 p = Some (TArray [fst e2, snd e2])
         \<and> length ps2 = length ps1
         \<and> map fst ps2 = map fst ps1"
proof -
  define pp1 where "pp1 = snd (add_langserve_path pp p e1)"
  define ps1 where "ps1 = dict_setitem ps p (TArray [fst e1, snd e1])"
  define pp2 where "pp2 = snd (add_langserve_path pp1 p e2)"
  define ps2 where "ps2 = dict_setitem ps1 p (TArray [fst e2, snd e2])"
  have s1: "add_langserve_path pp p e1 = (Inr (), pp1)"
    and g1: "get_langserve_paths pp1 = Inr (TTable ps1)"
    using add_langserve_path_step [OF assms, of p e1] by (simp_all add: pp1_def ps1_def)
  have s2: "add_langserve_path pp1 p e2 = (Inr (), pp2)"
    and g2: "get_langserve_paths pp2 = Inr (TTable ps2)"
    using add_langserve_path_step [OF g1, of p e2] by (simp_all add: pp2_def ps2_def)
  have m1: "map_of ps1 p = Some (TArray [fst e1, snd e1])"
    by (simp add: ps1_def map_of_dict_setitem)
  have m2: "map_of ps2 p = Some (TArray [fst e2, snd e2])"
    by (simp add: ps2_def map_of_dict_setitem)
  have l1: "p \<in> fst ` set ps \<longrightarrow> length ps1 = length ps"
    by (simp add: ps1_def length_dict_setitem map_of_eq_None_iff)
  have l2: "length ps2 = length ps1" and k2: "map fst ps2 = map fst ps1"
    using m1 by (simp_all add: ps2_def length_dict_setitem keys_dict_setitem)
  show ?thesis using s1 g1 m1 l1 s2 g2 m2 l2 k2 by blast
qed

text \<open>The theorem at the sample project, whose table already mounts \<^verbatim>\<open>/joke\<close>.\<close>

theorem add_langserve_path_last_write_wins_witness:
  "get_langserve_paths sample_project =
     Inr (TTable [(''/joke'', TArray [TStr ''joke'', TStr ''chain''])])
   \<and> (\<exists>pp1 ps1 pp2 ps2.
           add_langserve_path sample_project ''/joke'' (TStr ''pirate'', TStr ''chain'') = (Inr (), pp1)
         \<and> get_langserve_paths pp1 = Inr (TTable ps1)
         \<and> map_of ps1 ''/joke'' = Some (TArray [fst (TStr ''pirate'', TStr ''chain''), snd (TStr ''pirate'', TStr ''chain'')])
         \<and> (''/joke'' \<in> fst ` set [(''/joke'', TArray [TStr ''joke'', TStr ''chain''])] \<longrightarrow> length ps1 = length [(''/joke'', TArray [TStr ''joke'', TStr ''chain''])])
         \<and> add_langserve_path pp1 ''/joke'' (TStr ''parrot'', TStr ''app'') = (Inr (), pp2)
         \<and> get_langserve_paths pp2 = Inr (TTable ps2)
         \<and> map_of ps2 ''/joke'' = Some (TArray [fst (TStr ''parrot'', TStr ''app''), snd (TStr ''parrot'', TStr ''app'')])
         \<and> length ps2 = length ps1
         \<and> map fst ps2 = map fst ps1)"
  by (rule conjI [OF sample_project_paths
        add_langserve_path_last_write_wins [OF sample_project_paths]])

text \<open>
  The claim as stated, for every document, fails on a manifest with no \<^verbatim>\<open>tool\<close> table:
  \<^verbatim>\<open>addMount\<close> raises \<^verbatim>\<open>KeyError\<close>, the document is as before, and \<^verbatim>\<open>listMounts()\<close>
  raises as well instead of returning a mapping that contains the path.
\<close>

theorem add_langserve_path_no_tool_counterexample:
  "add_langserve_path bare_package ''/pirate'' (TStr ''pirate'', TStr ''chain'')
     = (Inl (KeyError ''tool''), bare_package)
   \<and> get_langserve_paths bare_package = Inl (KeyError ''tool'')"
  by (simp add: add_langserve_path_def get_langserve_paths_def get_langserve_path_dict_def
      dict_getitem_def bare_package_def bare_manifest_def)

subsection \<open>Removing a mount\<close>



subsection \<open>A manifest with no \<^verbatim>\<open>tool\<close> table\<close>

text \<open>
  Claim C10. On a document whose data has no top-level \<^verbatim>\<open>tool\<close> key, \<^verbatim>\<open>isHubCompatible()\<close>,
  \<^verbatim>\<open>addMount\<close>, \<^verbatim>\<open>removeMount\<close> and \<^verbatim>\<open>listMounts\<close> all raise \<^verbatim>\<open>KeyError\<close> for the key
  \<^verbatim>\<open>tool\<close> (the mutators leave the document as it was); and when the manifest fetched for
  a package is such a document, the command \<^verbatim>\<open>add\<close> fails with that \<^verbatim>\<open>KeyError\<close>, not with
  the incompatible-package error, and changes nothing.
\<close>

theorem no_tool_table_is_lookup_failure:
  assumes "map_of (data pp) ''tool'' = None"
  shows "is_langserve pp = Inl (KeyError ''tool'')
       \<and> add_langserve_path pp p e = (Inl (KeyError ''tool''), pp)
       \<and> remove_langserve_path pp p = (Inl (KeyError ''tool''), pp)
       \<and> get_langserve_paths pp = Inl (KeyError ''tool'')
       \<and> (from_url X (package_to_pyproject (environ w) package) w = Inr pp
            \<longrightarrow> add X package path_arg w = (Inl (KeyError ''tool''), w))"
proof -
  have i: "is_langserve pp = Inl (KeyError ''tool'')"
    using assms by (simp add: is_langserve_def dict_getitem_def)
  have g: "get_langserve_path_dict pp = Inl (KeyError ''tool'')"
    by (rule tool_absent [OF assms])
  show ?thesis
    using i g
    by (simp add: add_langserve_path_def remove_langserve_path_def get_langserve_paths_def add_def)
qed

theorem no_tool_table_is_lookup_failure_witness:
  "map_of (data bare_package) ''tool'' = None
   \<and> from_url (sample_platform 0) (package_to_pyproject (environ sample_world) ''simple/bare'') sample_world
       = Inr bare_package
   \<and> is_langserve bare_package = Inl (KeyError ''tool'')
   \<and> add_langserve_path bare_package ''/bare'' (TStr ''bare'', TStr ''chain'') = (Inl (KeyError ''tool''), bare_package)
   \<and> remove_langserve_path bare_package ''/bare'' = (Inl (KeyError ''tool''), bare_package)
   \<and> get_langserve_paths bare_package = Inl (KeyError ''tool'')
   \<and> add (sample_platform 0) ''simple/bare'' None sample_world = (Inl (KeyError ''tool''), sample_world)"
proof -
  note h = bare_package_no_tool
  from no_tool_table_is_lookup_failure [OF h, of "''/bare''" "(TStr ''bare'', TStr ''chain'')"
      "sample_platform 0" sample_world "''simple/bare''" None] fetch_bare h
  show ?thesis by blast
qed

section \<open>The export declaration\<close>

text \<open>
  Claim C7, as amended. On a document that has a \<^verbatim>\<open>tool\<close> table whose langserve section
  is absent or a table (\<open>ls\<close> is that section, empty when absent), \<^verbatim>\<open>getExport()\<close> fails
  with the error that names the missing field: the one naming \<^verbatim>\<open>export_module\<close> when
  \<^verbatim>\<open>export_module\<close> is absent (after printing the document), the one naming
  \<^verbatim>\<open>export_attr\<close> when \<^verbatim>\<open>export_module\<close> is present and \<^verbatim>\<open>export_attr\<close> is absent; with
  both present it returns the pair and prints nothing.
\<close>

theorem get_langserve_export_names_missing_field:
  assumes "map_of (data pp) ''tool'' = Some (TTable t)"
    and "map_of t ''langserve'' = None \<and> ls = [] \<or> map_of t ''langserve'' = Some (TTable ls)"
  shows "(map_of ls ''export_module'' = None \<longrightarrow>
            get_langserve_export pp w =
              (Inl (ValueError ''No module name was exported at `tool.langserve.export_module`''),
               echo (Repr (data pp)) w))
       \<and> (\<forall>m. map_of ls ''export_module'' = Some m \<and> map_of ls ''export_attr'' = None \<longrightarrow>
            get_langserve_export pp w =
              (Inl (ValueError ''No attr name was exported at `tool.langserve.export_attr`''), w))
       \<and> (\<forall>m a. map_of ls ''export_module'' = Some m \<and> map_of ls ''export_attr'' = Some a \<longrightarrow>
            get_langserve_export pp w = (Inr (m, a), w))"
proof -
  have l: "py_get (TTable t) ''langserve'' (TTable []) = Inr (TTable ls)"
    using assms(2) by auto
  show ?thesis
    unfolding get_langserve_export_def dict_getitem_def
    using assms(1) l by simp
qed


text \<open>
  The theorem at three sample manifests: no langserve section, \<^verbatim>\<open>export_module\<close> only,
  and both fields.
\<close>

theorem get_langserve_export_names_missing_field_witness:
  "get_langserve_export plain_package sample_world =
     (Inl (ValueError ''No module name was exported at `tool.langserve.export_module`''),
      echo (Repr (data plain_package)) sample_world)
   \<and> get_langserve_export half_package sample_world =
     (Inl (ValueError ''No attr name was exported at `tool.langserve.export_attr`''), sample_world)
   \<and> get_langserve_export pirate_package sample_world =
     (Inr (TStr ''pirate'', TStr ''chain''), sample_world)"
proof -
  have c1: "get_langserve_export plain_package sample_world =
     (Inl (ValueError ''No module name was exported at `tool.langserve.export_module`''),
      echo (Repr (data plain_package)) sample_world)"
    using get_langserve_export_names_missing_field
      [of plain_package "[(''poetry'', TTable [(''name'', TStr ''plain'')])]" "[]" sample_world]
    by (simp add: plain_package_def plain_manifest_def)
  have c2: "get_langserve_export half_package sample_world =
     (Inl (ValueError ''No attr name was exported at `tool.langserve.export_attr`''), sample_world)"
    using get_langserve_export_names_missing_field
      [of half_package "[(''langserve'', TTable [(''export_module'', TStr ''pirate'')])]"
          "[(''export_module'', TStr ''pirate'')]" sample_world]
    by (simp add: half_package_def)
  have c3: "get_langserve_export pirate_package sample_world =
     (Inr (TStr ''pirate'', TStr ''chain''), sample_world)"
    using get_langserve_export_names_missing_field
      [of pirate_package "[(''poetry'', TTable [(''name'', TStr ''pirate'')]),
         (''langserve'', TTable
            [(''export_module'', TStr ''pirate''), (''export_attr'', TStr ''chain'')])]"
          "[(''export_module'', TStr ''pirate''), (''export_attr'', TStr ''chain'')]" sample_world]
    by (simp add: pirate_package_def pirate_manifest_def)
  show ?thesis using c1 c2 c3 by blast
qed

text \<open>
  The claim as stated fails on a manifest with no \<^verbatim>\<open>tool\<close> table: the document lacks
  \<^verbatim>\<open>export_module\<close>, and the error is the \<^verbatim>\<open>KeyError\<close> for \<^verbatim>\<open>tool\<close>, which names neither
  field.
\<close>

theorem get_langserve_export_no_tool_counterexample:
  "get_langserve_export bare_package sample_world = (Inl (KeyError ''tool''), sample_world)"
  by (simp add: get_langserve_export_def dict_getitem_def bare_package_def bare_manifest_def)

section \<open>Saving a document\<close>

text \<open>
  Claim C8. A document made by \<^verbatim>\<open>from_url\<close> has no path, and \<^verbatim>\<open>save()\<close> on a document
  with no path fails with the \<^verbatim>\<open>ValueError\<close> that says so and leaves every file as it
  was; a document made by \<^verbatim>\<open>load\<close> keeps the path it was loaded from, and \<^verbatim>\<open>save()\<close> on
  a document with a path writes the dump of its data to that path.
\<close>

theorem save_needs_a_path:
  "(from_url X url w0 = Inr pp \<longrightarrow> path pp = None)
   \<and> (path pp = None \<longrightarrow>
        save X pp w =
          (Inl (ValueError ''Cannot save a PyProject that was not loaded from a file''), w))
   \<and> (load X p w0 = Inr pp \<longrightarrow> path pp = Some p)
   \<and> (path pp = Some p \<longrightarrow>
        save X pp w = (Inr (), w\<lparr>files := (files w)(p \<mapsto> dump_toml X (data pp))\<rparr>))"
  by (auto simp: from_url_def load_def save_def split: option.splits response.splits sum.splits)


lemma load_sample_project:
  "load (sample_platform 0) ''pyproject.toml'' sample_world = Inr sample_project"
  by (simp add: load_def sample_world_def sample_platform_def sample_load_toml_def
      sample_project_def pirate_manifest_def plain_manifest_def bare_manifest_def
      project_manifest_def)

text \<open>The theorem at a fetched sample manifest and at the loaded sample project.\<close>

theorem save_needs_a_path_witness:
  "from_url (sample_platform 0) (package_to_pyproject (environ sample_world) ''simple/bare'') sample_world
     = Inr bare_package
   \<and> save (sample_platform 0) bare_package sample_world =
       (Inl (ValueError ''Cannot save a PyProject that was not loaded from a file''), sample_world)
   \<and> load (sample_platform 0) ''pyproject.toml'' sample_world = Inr sample_project
   \<and> save (sample_platform 0) sample_project sample_world =
       (Inr (), sample_world\<lparr>files := (files sample_world)
          (''pyproject.toml'' \<mapsto> dump_toml (sample_platform 0) (data sample_project))\<rparr>)"
proof -
  note f = fetch_bare
  note l = load_sample_project
  from f save_needs_a_path [of "sample_platform 0" _ sample_world bare_package sample_world]
  have c1: "save (sample_platform 0) bare_package sample_world =
       (Inl (ValueError ''Cannot save a PyProject that was not loaded from a file''), sample_world)"
    by blast
  from l save_needs_a_path [of "sample_platform 0" _ sample_world sample_project sample_world "''pyproject.toml''"]
  have c2: "save (sample_platform 0) sample_project sample_world =
       (Inr (), sample_world\<lparr>files := (files sample_world)
          (''pyproject.toml'' \<mapsto> dump_toml (sample_platform 0) (data sample_project))\<rparr>)"
    by blast
  show ?thesis using f l c1 c2 by blast
qed

section \<open>The identifier resolver\<close>

text \<open>
  Claim C4. For an identifier that starts with \<^verbatim>\<open>.\<close> or \<^verbatim>\<open>/\<close>, \<^verbatim>\<open>_package_to_pyproject\<close>
  returns the identifier followed by \<^verbatim>\<open>/pyproject.toml\<close>. For every other identifier it
  returns the raw-content URL of the hub that ends in \<^verbatim>\<open>/<id>/pyproject.toml\<close>, with
  nothing appended when \<^verbatim>\<open>GITHUB_TOKEN\<close> is unset or empty, and with \<^verbatim>\<open>?token=<t>\<close>
  appended when it is set to a non-empty \<open>t\<close>. The function is total: no case raises.
\<close>

theorem package_to_pyproject_location:
  "(package \<noteq> [] \<and> (hd package = CHR ''.'' \<or> hd package = CHR ''/'') \<longrightarrow>
      package_to_pyproject env package = package @ ''/pyproject.toml'')
   \<and> (\<not> (package \<noteq> [] \<and> (hd package = CHR ''.'' \<or> hd package = CHR ''/'')) \<longrightarrow>
        (env ''GITHUB_TOKEN'' = None \<or> env ''GITHUB_TOKEN'' = Some [] \<longrightarrow>
           package_to_pyproject env package =
             ''https://raw.githubusercontent.com/langchain-ai/langserve-hub/main/'' @ package
               @ ''/pyproject.toml'')
      \<and> (\<forall>t. env ''GITHUB_TOKEN'' = Some t \<and> t \<noteq> [] \<longrightarrow>
           package_to_pyproject env package =
             ''https://raw.githubusercontent.com/langchain-ai/langserve-hub/main/'' @ package
               @ ''/pyproject.toml'' @ ''?token='' @ t))"
  by (cases package) (auto simp: package_to_pyproject_def startswith_def)

text \<open>The three examples of the specification.\<close>

theorem package_to_pyproject_location_witness:
  "package_to_pyproject Map.empty ''./local/pkg'' = ''./local/pkg/pyproject.toml''
   \<and> package_to_pyproject Map.empty ''simple/pirate'' =
       ''https://raw.githubusercontent.com/langchain-ai/langserve-hub/main/simple/pirate/pyproject.toml''
   \<and> package_to_pyproject [''GITHUB_TOKEN'' \<mapsto> ''s3cret''] ''simple/pirate'' =
       ''https://raw.githubusercontent.com/langchain-ai/langserve-hub/main/simple/pirate/pyproject.toml?token=s3cret''"
proof -
  have c1: "package_to_pyproject Map.empty ''./local/pkg'' = ''./local/pkg/pyproject.toml''"
    using package_to_pyproject_location [of "''./local/pkg''" Map.empty] by simp
  have c2: "package_to_pyproject Map.empty ''simple/pirate'' =
       ''https://raw.githubusercontent.com/langchain-ai/langserve-hub/main/simple/pirate/pyproject.toml''"
    using package_to_pyproject_location [of "''simple/pirate''" Map.empty] by simp
  have c3: "package_to_pyproject [''GITHUB_TOKEN'' \<mapsto> ''s3cret''] ''simple/pirate'' =
       ''https://raw.githubusercontent.com/langchain-ai/langserve-hub/main/simple/pirate/pyproject.toml?token=s3cret''"
    using package_to_pyproject_location [of "''simple/pirate''" "[''GITHUB_TOKEN'' \<mapsto> ''s3cret'']"]
    by simp
  show ?thesis using c1 c2 c3 by blast
qed

section \<open>The registration workflow: the command \<^verbatim>\<open>add\<close>\<close>

text \<open>
  Claim C1, as amended. Let the manifest fetched for the package be \<open>pkg\<close>. When \<open>pkg\<close>
  has a \<^verbatim>\<open>tool\<close> table with no \<^verbatim>\<open>langserve\<close> key, \<^verbatim>\<open>add\<close> fails with the
  incompatible-package error; when \<open>pkg\<close> has no \<^verbatim>\<open>tool\<close> table at all, it fails with
  the \<^verbatim>\<open>KeyError\<close> for \<^verbatim>\<open>tool\<close>. In both cases the world is returned as it was: no shell
  command has been run, nothing has been printed, and every local file, the project
  manifest among them, holds the bytes it held before.
\<close>

theorem add_incompatible_package:
  assumes "from_url X (package_to_pyproject (environ w) package) w = Inr pkg"
  shows "(\<forall>t. map_of (data pkg) ''tool'' = Some (TTable t) \<and> map_of t ''langserve'' = None \<longrightarrow>
            add X package path_arg w =
              (Inl (ValueError (''Package '' @ package
                  @ '' does not have a `tool.langserve` section in its pyproject.toml'')), w))
       \<and> (map_of (data pkg) ''tool'' = None \<longrightarrow>
            add X package path_arg w = (Inl (KeyError ''tool''), w))"
  using assms by (simp add: add_def is_langserve_def dict_getitem_def)


lemma fetch_plain:
  "from_url (sample_platform 0) (package_to_pyproject (environ sample_world) ''simple/plain'') sample_world
     = Inr plain_package"
  by (simp add: from_url_def package_to_pyproject_def startswith_def sample_world_def hub_url_def
      sample_platform_def sample_load_toml_def plain_package_def
      pirate_manifest_def plain_manifest_def bare_manifest_def project_manifest_def)

text \<open>
  The theorem at two sample packages: one whose manifest has a \<^verbatim>\<open>tool\<close> table without a
  langserve section, one whose manifest has no \<^verbatim>\<open>tool\<close> table.
\<close>

theorem add_incompatible_package_witness:
  "from_url (sample_platform 0) (package_to_pyproject (environ sample_world) ''simple/plain'') sample_world
     = Inr plain_package
   \<and> map_of (data plain_package) ''tool'' = Some (TTable [(''poetry'', TTable [(''name'', TStr ''plain'')])])
   \<and> map_of [(''poetry'', TTable [(''name'', TStr ''plain'')])] ''langserve'' = None
   \<and> add (sample_platform 0) ''simple/plain'' (Some ''/plain'') sample_world =
       (Inl (ValueError (''Package '' @ ''simple/plain''
           @ '' does not have a `tool.langserve` section in its pyproject.toml'')), sample_world)
   \<and> from_url (sample_platform 0) (package_to_pyproject (environ sample_world) ''simple/bare'') sample_world
     = Inr bare_package
   \<and> map_of (data bare_package) ''tool'' = None
   \<and> add (sample_platform 0) ''simple/bare'' (Some ''/bare'') sample_world =
       (Inl (KeyError ''tool''), sample_world)"
proof -
  have h1: "map_of (data plain_package) ''tool'' = Some (TTable [(''poetry'', TTable [(''name'', TStr ''plain'')])])"
    by (simp add: plain_package_def plain_manifest_def)
  have h2: "map_of [(''poetry'', TTable [(''name'', TStr ''plain'')])] ''langserve'' = None"
    by simp
  from add_incompatible_package [OF fetch_plain, of "Some ''/plain''"] h1 h2
  have c1: "add (sample_platform 0) ''simple/plain'' (Some ''/plain'') sample_world =
       (Inl (ValueError (''Package '' @ ''simple/plain''
           @ '' does not have a `tool.langserve` section in its pyproject.toml'')), sample_world)"
    by blast
  from add_incompatible_package [OF fetch_bare, of "Some ''/bare''"] bare_package_no_tool
  have c2: "add (sample_platform 0) ''simple/bare'' (Some ''/bare'') sample_world =
       (Inl (KeyError ''tool''), sample_world)"
    by blast
  show ?thesis using fetch_plain h1 h2 c1 fetch_bare bare_package_no_tool c2 by blast
qed

text \<open>
  The claim as stated fails on a package whose manifest has no \<^verbatim>\<open>tool\<close> table: it has no
  langserve section, and the error is the \<^verbatim>\<open>KeyError\<close>, not the incompatible-package error.
\<close>

theorem add_no_tool_counterexample:
  "data bare_package = [(''project'', TTable [(''name'', TStr ''bare'')])]
   \<and> from_url (sample_platform 0) (package_to_pyproject (environ sample_world) ''simple/bare'') sample_world
       = Inr bare_package
   \<and> fst (add (sample_platform 0) ''simple/bare'' None sample_world) = Inl (KeyError ''tool'')
   \<and> fst (add (sample_platform 0) ''simple/bare'' None sample_world) \<noteq>
       Inl (ValueError (''Package '' @ ''simple/bare''
           @ '' does not have a `tool.langserve` section in its pyproject.toml''))"
proof -
  have a: "add (sample_platform 0) ''simple/bare'' None sample_world = (Inl (KeyError ''tool''), sample_world)"
    using fetch_bare bare_package_no_tool
    by (simp add: add_def is_langserve_def dict_getitem_def)
  show ?thesis using fetch_bare a by (simp add: bare_package_def bare_manifest_def)
qed

subsection \<open>The exit status of the installer\<close>

lemma from_url_shell: "from_url (X\<lparr>shell := s\<rparr>) url w = from_url X url w"
  by (simp add: from_url_def split: option.splits response.splits)

lemma load_pyproject_shell: "load_pyproject (X\<lparr>shell := s\<rparr>) w = load_pyproject X w"
  by (simp add: load_pyproject_def load_def split: option.splits)

lemma save_shell: "save (X\<lparr>shell := s\<rparr>) pp w = save X pp w"
  by (simp add: save_def split: option.splits)

lemma subprocess_run_exit_status:
  "subprocess_run (X\<lparr>shell := \<lambda>cmd fs. (rc, snd (shell X cmd fs))\<rparr>) cmd w
     = (rc, snd (subprocess_run X cmd w))"
  by (simp add: subprocess_run_def split_beta)

text \<open>
  Claim C3, as amended. The exit status of the installer is not inspected: replace the
  status the installer returns by any other, with the same effect on the files, and
  \<^verbatim>\<open>add\<close> returns the same result and leaves the same world. After a non-zero exit the
  workflow therefore loads the local manifest, mounts and saves exactly as after exit 0.
\<close>

theorem add_ignores_installer_exit_status:
  "add (X\<lparr>shell := \<lambda>cmd fs. (rc, snd (shell X cmd fs))\<rparr>) package path_arg w
     = add X package path_arg w"
  unfolding add_def Let_def from_url_shell load_pyproject_shell save_shell
    subprocess_run_exit_status
  by (simp add: split_beta cong: sum.case_cong bool.case_cong)



lemma fetch_pirate:
  "from_url (sample_platform rc) (package_to_pyproject (environ sample_world) ''simple/pirate'') sample_world
     = Inr pirate_package"
  by (simp add: from_url_def package_to_pyproject_def startswith_def sample_world_def hub_url_def
      sample_platform_def sample_load_toml_def pirate_package_def
      pirate_manifest_def plain_manifest_def bare_manifest_def project_manifest_def)

lemma load_sample_project_rc:
  "load_pyproject (sample_platform rc) (sample_world\<lparr>calls := cs, stdout := out\<rparr>) = Inr sample_project"
  by (simp add: load_pyproject_def load_def sample_world_def sample_platform_def sample_load_toml_def
      sample_project_def pirate_manifest_def plain_manifest_def bare_manifest_def
      project_manifest_def)

lemma pirate_is_langserve: "is_langserve pirate_package = Inr True"
  by (simp add: is_langserve_def dict_getitem_def pirate_package_def pirate_manifest_def)

lemma pirate_export:
  "get_langserve_export pirate_package w = (Inr (TStr ''pirate'', TStr ''chain''), w)"
  by (simp add: get_langserve_export_def dict_getitem_def pirate_package_def pirate_manifest_def)

lemma sample_project_mount:
  "add_langserve_path sample_project ''/simple/pirate'' (TStr ''pirate'', TStr ''chain'') =
     (Inr (), \<lparr>data =
        [(''tool'', TTable
           [(''poetry'', TTable [(''name'', TStr ''app'')]),
            (''langserve'', TTable
               [(''paths'', TTable [(''/joke'', TArray [TStr ''joke'', TStr ''chain'']),
                                    (''/simple/pirate'', TArray [TStr ''pirate'', TStr ''chain''])])])])],
        path = Some ''pyproject.toml''\<rparr>)"
  by (simp add: add_langserve_path_def get_langserve_path_dict_def set_langserve_path_dict_def
      dict_getitem_def sample_project_def project_manifest_def)

text \<open>
  The claim as stated fails where the installer exits with status 1: \<^verbatim>\<open>add\<close> succeeds,
  the installer has been run once, and the project manifest is saved with the new mount.
\<close>

theorem add_installer_failure_counterexample:
  "fst (shell (sample_platform 1)
         ''poetry add git+https://github.com/langchain-ai/langserve-hub.git#subdirectory=simple/pirate''
         (files sample_world)) = 1
   \<and> fst (add (sample_platform 1) ''simple/pirate'' None sample_world) = Inr ()
   \<and> calls (snd (add (sample_platform 1) ''simple/pirate'' None sample_world)) =
       [''poetry add git+https://github.com/langchain-ai/langserve-hub.git#subdirectory=simple/pirate'']
   \<and> files (snd (add (sample_platform 1) ''simple/pirate'' None sample_world)) ''pyproject.toml'' =
       Some (dump_toml (sample_platform 1)
         [(''tool'', TTable
           [(''poetry'', TTable [(''name'', TStr ''app'')]),
            (''langserve'', TTable
               [(''paths'', TTable [(''/joke'', TArray [TStr ''joke'', TStr ''chain'']),
                                    (''/simple/pirate'', TArray [TStr ''pirate'', TStr ''chain''])])])])])"
proof -
  have s: "shell (sample_platform 1) cmd fs = (1, fs)" for cmd fs
    by (simp add: sample_platform_def)
  have r: "subprocess_run (sample_platform 1) cmd (echo out sample_world) =
      (1, sample_world\<lparr>calls := [cmd], stdout := [out]\<rparr>)" for cmd out
    by (simp add: subprocess_run_def s echo_def sample_world_def)
  have a: "add (sample_platform 1) ''simple/pirate'' None sample_world =
      save (sample_platform 1)
        \<lparr>data =
        [(''tool'', TTable
           [(''poetry'', TTable [(''name'', TStr ''app'')]),
            (''langserve'', TTable
               [(''paths'', TTable [(''/joke'', TArray [TStr ''joke'', TStr ''chain'']),
                                    (''/simple/pirate'', TArray [TStr ''pirate'', TStr ''chain''])])])])],
        path = Some ''pyproject.toml''\<rparr>
        (sample_world\<lparr>calls :=
           [''poetry add git+https://github.com/langchain-ai/langserve-hub.git#subdirectory=simple/pirate''],
           stdout := [Line ''Adding simple/pirate'']\<rparr>)"
    unfolding add_def Let_def fetch_pirate
    by (simp add: pirate_is_langserve r package_to_poetry_def startswith_def
        load_sample_project_rc pirate_export sample_project_mount)
  show ?thesis unfolding a by (simp add: s save_def)
qed

section \<open>The command \<^verbatim>\<open>list\<close>\<close>

text \<open>Whatever the project, \<^verbatim>\<open>list\<close> ends in an error and prints nothing.\<close>

lemma list_cmd_never_succeeds: "\<exists>e. list_cmd X w = (Inl e, w)"
  by (simp add: list_cmd_def pyproject_getitem_def split: sum.splits)

text \<open>
  Claim C2 says that \<^verbatim>\<open>list\<close>, on a project whose manifest loads, succeeds and prints one
  line per mount. The code does not: on the sample project the manifest loads, its mount
  table holds \<^verbatim>\<open>/joke\<close>, and \<^verbatim>\<open>list\<close> raises \<^verbatim>\<open>TypeError\<close> at \<^verbatim>\<open>curr_data["tool"]\<close>
  with nothing printed.
\<close>

theorem list_cmd_fails_on_loaded_manifest:
  "load_pyproject (sample_platform 0) sample_world = Inr sample_project
   \<and> get_langserve_paths sample_project =
       Inr (TTable [(''/joke'', TArray [TStr ''joke'', TStr ''chain''])])
   \<and> list_cmd (sample_platform 0) sample_world =
       (Inl (TypeError ''PyProject object is not subscriptable''), sample_world)"
proof -
  have l: "load_pyproject (sample_platform 0) sample_world = Inr sample_project"
    using load_sample_project by (simp add: load_pyproject_def)
  show ?thesis using l sample_project_paths
    by (simp add: list_cmd_def pyproject_getitem_def)
qed

section \<open>The command \<^verbatim>\<open>download\<close>\<close>

text \<open>Mirroring prints nothing, so a failed download leaves no success line.\<close>

lemma mirror_keeps_stdout:
  "stdout (snd (mirror_node lp name node w)) = stdout w"
  "stdout (snd (mirror_entries lp entries w)) = stdout w"
  by (induction lp name node w and lp entries w rule: mirror_node_mirror_entries.induct)
     (auto split: prod.splits sum.splits)

lemma download_failure_prints_nothing:
  "fst (download package D w) = Inl e \<Longrightarrow> stdout (snd (download package D w)) = stdout w"
proof (cases "hub w package")
  case None
  then show ?thesis by (simp add: download_def download_github_path_def)
next
  case (Some entries)
  obtain r w' where m: "mirror_entries D entries w = (r, w')"
    by (cases "mirror_entries D entries w")
  assume f: "fst (download package D w) = Inl e"
  have "stdout w' = stdout w"
    using mirror_keeps_stdout(2) [of D entries w] m by simp
  with f Some m show ?thesis
    by (cases r) (simp_all add: download_def download_github_path_def)
qed

text \<open>
  Claim C9. Let the remote directory of the package hold the file \<^verbatim>\<open>a.txt\<close> and the
  subdirectory \<^verbatim>\<open>sub\<close> with the file \<^verbatim>\<open>b.txt\<close>. When both fetches succeed, \<^verbatim>\<open>download\<close>
  into \<open>D\<close> succeeds, \<^verbatim>\<open>D/a.txt\<close> and \<^verbatim>\<open>D/sub/b.txt\<close> hold the fetched contents, and the
  success line is printed. When the fetch of \<^verbatim>\<open>sub/b.txt\<close> fails, \<^verbatim>\<open>download\<close> fails with
  that error, no success line is printed, \<^verbatim>\<open>D/sub/b.txt\<close> is as before, and \<^verbatim>\<open>D/a.txt\<close>,
  written earlier, is still there. When the fetch of \<^verbatim>\<open>a.txt\<close> fails, that first failure
  is the result and nothing is written.
\<close>

theorem download_mirrors_tree:
  assumes "hub w package = Some [(''a.txt'', RFile fa), (''sub'', RDir [(''b.txt'', RFile fb)])]"
  shows "(\<forall>ca cb. fa = Inr ca \<and> fb = Inr cb \<longrightarrow>
            fst (download package D w) = Inr ()
          \<and> files (snd (download package D w)) (D @ ''/a.txt'') = Some ca
          \<and> files (snd (download package D w)) (D @ ''/sub/b.txt'') = Some cb
          \<and> stdout (snd (download package D w)) =
              stdout w @ [Line (''Successfully downloaded '' @ package @ '' to '' @ D)])
       \<and> (\<forall>ca e. fa = Inr ca \<and> fb = Inl e \<longrightarrow>
            fst (download package D w) = Inl e
          \<and> stdout (snd (download package D w)) = stdout w
          \<and> files (snd (download package D w)) (D @ ''/a.txt'') = Some ca
          \<and> files (snd (download package D w)) (D @ ''/sub/b.txt'') = files w (D @ ''/sub/b.txt''))
       \<and> (\<forall>e. fa = Inl e \<longrightarrow> download package D w = (Inl e, w))"
  using assms
  by (simp add: download_def download_github_path_def echo_def)

text \<open>The theorem at the two sample packages of the hub, one of them with a failing fetch.\<close>

theorem download_mirrors_tree_witness:
  "hub sample_world ''simple/pirate'' =
     Some [(''a.txt'', RFile (Inr ''alpha'')), (''sub'', RDir [(''b.txt'', RFile (Inr ''beta''))])]
   \<and> fst (download ''simple/pirate'' ''dest'' sample_world) = Inr ()
   \<and> files (snd (download ''simple/pirate'' ''dest'' sample_world)) (''dest'' @ ''/a.txt'') = Some ''alpha''
   \<and> files (snd (download ''simple/pirate'' ''dest'' sample_world)) (''dest'' @ ''/sub/b.txt'') = Some ''beta''
   \<and> stdout (snd (download ''simple/pirate'' ''dest'' sample_world)) =
        stdout sample_world @ [Line (''Successfully downloaded '' @ ''simple/pirate'' @ '' to '' @ ''dest'')]
   \<and> hub sample_world ''simple/broken'' =
     Some [(''a.txt'', RFile (Inr ''alpha'')),
           (''sub'', RDir [(''b.txt'', RFile (Inl (NotFoundError ''sub/b.txt'')))])]
   \<and> fst (download ''simple/broken'' ''dest'' sample_world) = Inl (NotFoundError ''sub/b.txt'')
   \<and> stdout (snd (download ''simple/broken'' ''dest'' sample_world)) = stdout sample_world
   \<and> files (snd (download ''simple/broken'' ''dest'' sample_world)) (''dest'' @ ''/a.txt'') = Some ''alpha''"
proof -
  have h1: "hub sample_world ''simple/pirate'' =
     Some [(''a.txt'', RFile (Inr ''alpha'')), (''sub'', RDir [(''b.txt'', RFile (Inr ''beta''))])]"
    by (simp add: sample_world_def)
  have h2: "hub sample_world ''simple/broken'' =
     Some [(''a.txt'', RFile (Inr ''alpha'')),
           (''sub'', RDir [(''b.txt'', RFile (Inl (NotFoundError ''sub/b.txt'')))])]"
    by (simp add: sample_world_def)
  from download_mirrors_tree [OF h1, of "''dest''"]
  have c1: "fst (download ''simple/pirate'' ''dest'' sample_world) = Inr ()
   \<and> files (snd (download ''simple/pirate'' ''dest'' sample_world)) (''dest'' @ ''/a.txt'') = Some ''alpha''
   \<and> files (snd (download ''simple/pirate'' ''dest'' sample_world)) (''dest'' @ ''/sub/b.txt'') = Some ''beta''
   \<and> stdout (snd (download ''simple/pirate'' ''dest'' sample_world)) =
        stdout sample_world @ [Line (''Successfully downloaded '' @ ''simple/pirate'' @ '' to '' @ ''dest'')]"
    by blast
  from download_mirrors_tree [OF h2, of "''dest''"]
  have c2: "fst (download ''simple/broken'' ''dest'' sample_world) = Inl (NotFoundError ''sub/b.txt'')
   \<and> stdout (snd (download ''simple/broken'' ''dest'' sample_world)) = stdout sample_world
   \<and> files (snd (download ''simple/broken'' ''dest'' sample_world)) (''dest'' @ ''/a.txt'') = Some ''alpha''"
    by blast
  show ?thesis using h1 h2 c1 c2 by blast
qed

end
